theory Spec2Isabelle
  imports Complex_Main "HOL-Library.Sublist"
begin

section \<open>EduVision: rarity roller and proximity filter\<close>

text \<open>
  The development embeds the two pieces of logic of the EduVision application that
  carry any design content: the weighted rarity picker (\<open>rollRarity\<close>,
  \<open>getRarity\<close>) and the haversine proximity filter (\<open>haversineDistance\<close>,
  \<open>loadNearbyQuestions\<close>), the latter in its three variants.

  Modelling conventions.
  \<^item> A JavaScript number is a \<^typ>\<open>real\<close>: arithmetic is exact, there is no rounding
    and no NaN. The doubles of the code differ from it in two places that matter below:
    the product \<open>Math.random() * totalWeight\<close> is rounded, and in \<open>haversineDistance\<close>
    the rounded \<open>a\<close> can exceed 1 for near-antipodal points, where the code returns NaN.
    The properties of the filter proved below do not depend on the values of the
    distance. A property that is absent from an object (\<open>undefined\<close>) is \<open>None\<close>.
  \<^item> \<open>Math.random()\<close> is a parameter of the roller, a real in \<open>[0, 1)\<close>.
  \<^item> The documents fetched from the store (\<open>await loadAllQuestions()\<close>, or the parsed
    \<open>geoq-index\<close> of the localStorage variant) are a parameter of the filter.
\<close>

subsection \<open>Rarity table\<close>

text \<open>
  One entry of \<open>RARITIES\<close>. The field \<open>id\<close> is named \<open>rid\<close> (\<open>id\<close> is the identity
  function of HOL); the \<open>icon\<close> glyph, presentation only and not ASCII, is left out.
\<close>

record rarityTier =
  rid :: string
  label :: string
  points :: nat
  color :: string
  bg :: string
  border :: string
  glow :: string
  weight :: real

definition RARITIES :: "rarityTier list" where
  "RARITIES =
    [\<lparr>rid = ''common'', label = ''Common'', points = 10, color = ''#667085'',
      bg = ''#F4F5F7'', border = ''#D0D5DD'', glow = ''none'', weight = 50\<rparr>,
     \<lparr>rid = ''uncommon'', label = ''Uncommon'', points = 25, color = ''#2B7A5F'',
      bg = ''#ECFDF3'', border = ''#6CE9A6'', glow = ''none'', weight = 30\<rparr>,
     \<lparr>rid = ''rare'', label = ''Rare'', points = 50, color = ''#3A6BE8'',
      bg = ''#EDF2FE'', border = ''#93B4FD'', glow = ''0 0 8px rgba(58,107,232,0.3)'',
      weight = 13\<rparr>,
     \<lparr>rid = ''epic'', label = ''Epic'', points = 100, color = ''#9B5DE5'',
      bg = ''#F4EDFB'', border = ''#C4A1F0'', glow = ''0 0 12px rgba(155,93,229,0.4)'',
      weight = 5\<rparr>,
     \<lparr>rid = ''legendary'', label = ''Legendary'', points = 250, color = ''#D4851F'',
      bg = ''#FFF7ED'', border = ''#F6C270'', glow = ''0 0 16px rgba(212,133,31,0.5)'',
      weight = 2\<rparr>]"

subsection \<open>Rarity roller\<close>

text \<open>
  \<^verbatim>\<open>
  function rollRarity() {
    const totalWeight = RARITIES.reduce((sum, r) => sum + r.weight, 0);
    let roll = Math.random() * totalWeight;
    for (const r of RARITIES) {
      roll -= r.weight;
      if (roll <= 0) return r.id;
    }
    return "common";
  }
  \<close>
  The \<open>for\<close> loop is \<open>rollRarity_loop\<close>: it returns \<open>Some\<close> identifier when the
  \<open>return r.id\<close> inside the loop fires and \<open>None\<close> when the loop runs off the end of
  the table, so that the trailing \<open>return "common"\<close> is a branch of its own in
  \<open>rollRarity_walk\<close>.
\<close>

definition totalWeight :: real where
  "totalWeight = foldl (\<lambda>sum r. sum + weight r) 0 RARITIES"

fun rollRarity_loop :: "rarityTier list \<Rightarrow> real \<Rightarrow> string option" where
  "rollRarity_loop [] roll = None"
| "rollRarity_loop (r # rs) roll =
     (let roll' = roll - weight r
      in if roll' \<le> 0 then Some (rid r) else rollRarity_loop rs roll')"

definition rollRarity_walk :: "real \<Rightarrow> string" where
  "rollRarity_walk roll =
     (case rollRarity_loop RARITIES roll of Some i \<Rightarrow> i | None \<Rightarrow> ''common'')"

definition rollRarity :: "real \<Rightarrow> string" where
  "rollRarity random = rollRarity_walk (random * totalWeight)"

subsection \<open>Tier lookup\<close>

text \<open>
  \<^verbatim>\<open>
  function getRarity(id) {
    return RARITIES.find((r) => r.id === id) || RARITIES[0];
  }
  \<close>
  The argument is \<open>Some\<close> string, or \<open>None\<close> for a missing (\<open>undefined\<close>) identifier,
  which \<open>===\<close> equates with no tier. Every tier object is truthy, so \<open>||\<close> takes its
  right operand exactly when \<open>find\<close> found nothing.
\<close>

definition getRarity :: "string option \<Rightarrow> rarityTier" where
  "getRarity i =
     (case find (\<lambda>r. Some (rid r) = i) RARITIES of
        Some r \<Rightarrow> r
      | None \<Rightarrow> RARITIES ! 0)"

subsection \<open>Haversine distance\<close>

text \<open>
  \<open>Math.atan2(y, x)\<close> on reals: the angle of the point \<open>(x, y)\<close>, in \<open>(-\<pi>, \<pi>]\<close>,
  with \<open>atan2(0, 0) = 0\<close> as ECMAScript has it.
\<close>

definition atan2 :: "real \<Rightarrow> real \<Rightarrow> real" where
  "atan2 y x =
     (if 0 < x then arctan (y / x)
      else if x < 0 then (if 0 \<le> y then arctan (y / x) + pi else arctan (y / x) - pi)
      else if 0 < y then pi / 2
      else if y < 0 then - (pi / 2)
      else 0)"

text \<open>
  \<^verbatim>\<open>
  function haversineDistance(lat1, lon1, lat2, lon2) {
    const R = 6371000;
    const toRad = (d) => (d * Math.PI) / 180;
    const dLat = toRad(lat2 - lat1);
    const dLon = toRad(lon2 - lon1);
    const a = Math.sin(dLat / 2) ** 2
            + Math.cos(toRad(lat1)) * Math.cos(toRad(lat2)) * Math.sin(dLon / 2) ** 2;
    return R * 2 * Math.atan2(Math.sqrt(a), Math.sqrt(1 - a));
  }
  \<close>
  The three variants carry the same text of this function. The constant \<open>a\<close> of its
  body is \<open>haversine_a\<close>.
\<close>

definition toRad :: "real \<Rightarrow> real" where
  "toRad d = (d * pi) / 180"

definition haversine_a :: "real \<Rightarrow> real \<Rightarrow> real \<Rightarrow> real \<Rightarrow> real" where
  "haversine_a lat1 lon1 lat2 lon2 =
     (let dLat = toRad (lat2 - lat1);
          dLon = toRad (lon2 - lon1)
      in (sin (dLat / 2))\<^sup>2 + cos (toRad lat1) * cos (toRad lat2) * (sin (dLon / 2))\<^sup>2)"

definition haversineDistance :: "real \<Rightarrow> real \<Rightarrow> real \<Rightarrow> real \<Rightarrow> real" where
  "haversineDistance lat1 lon1 lat2 lon2 =
     (let R = 6371000;
          a = haversine_a lat1 lon1 lat2 lon2
      in R * 2 * atan2 (sqrt a) (sqrt (1 - a)))"

text \<open>
  The reference definition, following the words of the specification: all four angles
  are converted to radians first, \<open>\<Delta>lat\<close> and \<open>\<Delta>lon\<close> are differences of radians,
  and the distance is \<open>2 \<sqdot> R \<sqdot> atan2(\<surd>a, \<surd>(1 - a))\<close> with \<open>R = 6371000\<close>.
\<close>

definition reference_haversine :: "real \<Rightarrow> real \<Rightarrow> real \<Rightarrow> real \<Rightarrow> real" where
  "reference_haversine lat1 lon1 lat2 lon2 =
     (let phi1 = lat1 * (pi / 180); phi2 = lat2 * (pi / 180);
          lam1 = lon1 * (pi / 180); lam2 = lon2 * (pi / 180);
          dlat = phi2 - phi1; dlon = lam2 - lam1;
          a = (sin (dlat / 2))\<^sup>2 + cos phi1 * cos phi2 * (sin (dlon / 2))\<^sup>2
      in 2 * 6371000 * atan2 (sqrt a) (sqrt (1 - a)))"

subsection \<open>Questions\<close>

text \<open>
  A question document as the filter sees it. \<open>qid\<close> is the document's \<open>id\<close>; \<open>body\<close>
  stands for the content fields (question text, choices, hint, thumbnail), which the
  filter only carries along. \<open>distance\<close> is absent (\<open>None\<close>) on a stored document and
  set by the filter.
\<close>

record question =
  qid :: string
  lat :: real
  lng :: real
  subject :: string
  difficulty :: string
  rarity :: "string option"
  timestamp :: int
  body :: string
  distance :: "real option"

subsection \<open>Array.prototype.sort\<close>

text \<open>
  \<open>xs.sort(cmp)\<close> is a stable sort (ECMAScript 2019), and for a comparator that is a
  consistent ordering its result is determined: the stable insertion sort below, where
  \<open>x\<close> goes before the first \<open>y\<close> with \<open>cmp(x, y) \<le> 0\<close> and elements are inserted from
  the right, so that equal elements keep their order.
\<close>

fun insertBy :: "('a \<Rightarrow> 'a \<Rightarrow> real) \<Rightarrow> 'a \<Rightarrow> 'a list \<Rightarrow> 'a list" where
  "insertBy cmp x [] = [x]"
| "insertBy cmp x (y # ys) =
     (if cmp x y \<le> 0 then x # y # ys else y # insertBy cmp x ys)"

fun sortBy :: "('a \<Rightarrow> 'a \<Rightarrow> real) \<Rightarrow> 'a list \<Rightarrow> 'a list" where
  "sortBy cmp [] = []"
| "sortBy cmp (x # xs) = insertBy cmp x (sortBy cmp xs)"

subsection \<open>Proximity filter, Firestore variants\<close>

text \<open>
  \<^verbatim>\<open>
  async function loadNearbyQuestions(userLat, userLng, radiusMeters = 50000) {
    const allQuestions = await loadAllQuestions();
    return allQuestions
      .map((q) => ({ ...q, distance: haversineDistance(userLat, userLng, q.lat, q.lng) }))
      .filter((q) => q.distance <= radiusMeters)
      .sort((a, b) => a.distance - b.distance)
      .slice(0, 30);
  }
  \<close>
  The three callbacks are \<open>withDistance\<close>, \<open>withinRadius\<close> and \<open>byDistance\<close>. A missing
  \<open>distance\<close> makes \<open>q.distance <= radiusMeters\<close> false and \<open>a.distance - b.distance\<close>
  NaN, which \<open>sort\<close> reads as \<open>0\<close>. The radius argument is \<open>None\<close> when the caller
  leaves it out, and then the default applies.
\<close>

definition withDistance :: "real \<Rightarrow> real \<Rightarrow> question \<Rightarrow> question" where
  "withDistance userLat userLng q =
     q\<lparr>distance := Some (haversineDistance userLat userLng (lat q) (lng q))\<rparr>"

definition withinRadius :: "real \<Rightarrow> question \<Rightarrow> bool" where
  "withinRadius radiusMeters q =
     (case distance q of Some d \<Rightarrow> d \<le> radiusMeters | None \<Rightarrow> False)"

definition byDistance :: "question \<Rightarrow> question \<Rightarrow> real" where
  "byDistance a b =
     (case distance a of
        None \<Rightarrow> 0
      | Some x \<Rightarrow> (case distance b of None \<Rightarrow> 0 | Some y \<Rightarrow> x - y))"

definition radiusOrDefault :: "real option \<Rightarrow> real" where
  "radiusOrDefault radiusArg = (case radiusArg of None \<Rightarrow> 50000 | Some r \<Rightarrow> r)"

text \<open>The Firestore and Google sign-in variant.\<close>

definition loadNearbyQuestions ::
  "real \<Rightarrow> real \<Rightarrow> real option \<Rightarrow> question list \<Rightarrow> question list" where
  "loadNearbyQuestions userLat userLng radiusArg allQuestions =
     (let radiusMeters = radiusOrDefault radiusArg
      in take 30
           (sortBy byDistance
              (filter (withinRadius radiusMeters)
                 (map (withDistance userLat userLng) allQuestions))))"


subsection \<open>Proximity filter, localStorage variant\<close>

text \<open>
  \<^verbatim>\<open>
  async function loadNearbyQuestions(userLat, userLng, radiusMeters = 50000) {
    let index = [];
    try {
      const existing = localStorage.getItem("geoq-index");
      if (existing) index = JSON.parse(existing);
    } catch { return []; }
    const nearby = index
      .map((e) => ({ ...e, distance: haversineDistance(userLat, userLng, e.lat, e.lng) }))
      .filter((e) => e.distance <= radiusMeters)
      .sort((a, b) => a.distance - b.distance);
    const results = [];
    for (const entry of nearby.slice(0, 20)) {
      try {
        const data = localStorage.getItem(entry.id);
        if (data) results.push({ ...entry, ...JSON.parse(data) });
      } catch {}
    }
    return results;
  }
  \<close>
  The parsed index is the argument \<open>stored\<close>: \<open>None\<close> when the key is absent or does
  not parse, and both paths end in the empty result. The payload kept under an entry's
  \<open>id\<close> is what \<open>publishQuestion\<close> wrote: coordinates, subject, difficulty and the
  content fields; \<open>payloads\<close> gives \<open>None\<close> for an identifier with no payload, or with
  one that does not parse. The spread \<open>{...entry, ...data}\<close> lets the payload's fields
  override the entry's and keeps \<open>id\<close>, \<open>timestamp\<close> and \<open>distance\<close>.
\<close>

record questionData =
  data_lat :: real
  data_lng :: real
  data_subject :: string
  data_difficulty :: string
  data_body :: string

definition mergeData :: "question \<Rightarrow> questionData \<Rightarrow> question" where
  "mergeData entry d =
     entry\<lparr>lat := data_lat d, lng := data_lng d, subject := data_subject d,
           difficulty := data_difficulty d, body := data_body d\<rparr>"

fun hydrate :: "(string \<Rightarrow> questionData option) \<Rightarrow> question list \<Rightarrow> question list" where
  "hydrate payloads [] = []"
| "hydrate payloads (entry # rest) =
     (case payloads (qid entry) of
        None \<Rightarrow> hydrate payloads rest
      | Some d \<Rightarrow> mergeData entry d # hydrate payloads rest)"


subsection \<open>Auxiliary notions and sample data\<close>

text \<open>
  \<open>nearbySorted\<close> is the chain \<open>map\<close>, \<open>filter\<close>, \<open>sort\<close> that all variants share,
  before the \<open>slice\<close>. \<open>distanceOf\<close> reads the \<open>distance\<close> of a question on which it is
  present, and \<open>scored\<close> says that it is the distance from the observer.
\<close>

definition nearbySorted :: "real \<Rightarrow> real \<Rightarrow> real \<Rightarrow> question list \<Rightarrow> question list" where
  "nearbySorted userLat userLng radiusMeters qs =
     sortBy byDistance
       (filter (withinRadius radiusMeters) (map (withDistance userLat userLng) qs))"

definition distanceOf :: "question \<Rightarrow> real" where
  "distanceOf q = (case distance q of Some d \<Rightarrow> d | None \<Rightarrow> 0)"

definition scored :: "real \<Rightarrow> real \<Rightarrow> question \<Rightarrow> bool" where
  "scored userLat userLng q \<longleftrightarrow>
     distance q = Some (haversineDistance userLat userLng (lat q) (lng q))"

text \<open>
  Two questions pinned at latitude 0, longitude 0, one at the north pole and one at the
  antipode, and the payload \<open>publishQuestion\<close> would have stored for the first.
\<close>

definition sample_a :: question where
  "sample_a = \<lparr>qid = ''a'', lat = 0, lng = 0, subject = ''math'', difficulty = ''middle'',
     rarity = Some ''rare'', timestamp = 1, body = ''A'', distance = None\<rparr>"

definition sample_b :: question where
  "sample_b = \<lparr>qid = ''b'', lat = 0, lng = 0, subject = ''art'', difficulty = ''high'',
     rarity = None, timestamp = 2, body = ''B'', distance = None\<rparr>"

definition sample_far :: question where
  "sample_far = \<lparr>qid = ''c'', lat = 0, lng = 180, subject = ''science'',
     difficulty = ''elementary'', rarity = Some ''common'', timestamp = 3, body = ''C'',
     distance = None\<rparr>"

definition sample_pole :: question where
  "sample_pole = \<lparr>qid = ''p'', lat = 90, lng = 0, subject = ''history'',
     difficulty = ''high'', rarity = Some ''epic'', timestamp = 4, body = ''P'',
     distance = None\<rparr>"


section \<open>The rarity roller\<close>

lemma totalWeight_eq: "totalWeight = 100"
  by (simp add: totalWeight_def RARITIES_def)


lemma ids_RARITIES:
  "map rid RARITIES = [''common'', ''uncommon'', ''rare'', ''epic'', ''legendary'']"
  by (simp add: RARITIES_def)

text \<open>The walk over the configured table, as a decision list on the draw.\<close>

lemma rollRarity_loop_RARITIES:
  "rollRarity_loop RARITIES roll =
     (if roll \<le> 50 then Some ''common''
      else if roll \<le> 80 then Some ''uncommon''
      else if roll \<le> 93 then Some ''rare''
      else if roll \<le> 98 then Some ''epic''
      else if roll \<le> 100 then Some ''legendary''
      else None)"
  by (simp add: RARITIES_def Let_def)

lemma rollRarity_walk_cases:
  "rollRarity_walk roll =
     (if roll \<le> 50 then ''common''
      else if roll \<le> 80 then ''uncommon''
      else if roll \<le> 93 then ''rare''
      else if roll \<le> 98 then ''epic''
      else if roll \<le> 100 then ''legendary''
      else ''common'')"
  by (simp add: rollRarity_walk_def rollRarity_loop_RARITIES)

text \<open>
  On any table whose weights are not negative, a draw that lies above the sum of the
  weights before a tier, by at most that tier's weight, returns that tier: the draws
  of a tier fill an interval as long as its weight.
\<close>

lemma rollRarity_loop_interval:
  assumes "\<forall>p\<in>set pre. 0 \<le> weight p"
    and "sum_list (map weight pre) < roll"
    and "roll \<le> sum_list (map weight pre) + weight r"
  shows "rollRarity_loop (pre @ r # post) roll = Some (rid r)"
  using assms
proof (induction pre arbitrary: roll)
  case Nil
  then show ?case by (simp add: Let_def)
next
  case (Cons p ps)
  have "0 \<le> sum_list (map weight ps)"
    using Cons.prems(1) by (intro sum_list_nonneg) auto
  with Cons.prems(2) have "\<not> roll - weight p \<le> 0" by simp
  moreover have "rollRarity_loop (ps @ r # post) (roll - weight p) = Some (rid r)"
    using Cons.prems by (intro Cons.IH) simp_all
  ultimately show ?case by (simp add: Let_def)
qed


text \<open>
  Claim C4. Whatever the draw, the roller returns an identifier of the configured table.
  A draw equal to the total weight leaves remainder \<open>0\<close> at the last tier and yields
  legendary; a draw above the total leaves a positive remainder after the last tier, the
  loop ends without returning, and the fallback yields common.
\<close>

theorem rollRarity_always_valid_tier:
  "rollRarity_walk roll \<in> set (map rid RARITIES)
   \<and> rollRarity random \<in> set (map rid RARITIES)
   \<and> rollRarity_walk totalWeight = ''legendary''
   \<and> (totalWeight < roll \<longrightarrow>
        rollRarity_loop RARITIES roll = None \<and> rollRarity_walk roll = ''common'')"
  by (simp add: rollRarity_def rollRarity_walk_cases rollRarity_loop_RARITIES
      ids_RARITIES totalWeight_eq)

theorem rollRarity_always_valid_tier_witness:
  "totalWeight < 101 \<and> rollRarity_loop RARITIES 101 = None
   \<and> rollRarity_walk 101 = ''common'' \<and> ''common'' \<in> set (map rid RARITIES)"
  using rollRarity_always_valid_tier [of 101 0]
  by (auto simp: totalWeight_eq)

text \<open>
  The loop on any table: a draw that does not exceed the sum of the weights makes a
  non-empty walk return inside the loop, at the last tier at the latest.
\<close>

lemma rollRarity_loop_returns:
  "rs \<noteq> [] \<Longrightarrow> roll \<le> sum_list (map weight rs) \<Longrightarrow> rollRarity_loop rs roll \<noteq> None"
proof (induction rs arbitrary: roll)
  case Nil
  then show ?case by simp
next
  case (Cons r rs)
  show ?case
  proof (cases "rs = []")
    case True
    with Cons.prems show ?thesis by (simp add: Let_def)
  next
    case False
    with Cons show ?thesis by (simp add: Let_def)
  qed
qed

lemma reduce_weights:
  "foldl (\<lambda>sum r. sum + weight r) acc rs = acc + sum_list (map weight rs)"
  by (induction rs arbitrary: acc) simp_all

text \<open>
  Claim C9. In exact arithmetic the trailing \<open>return "common"\<close> is never reached: with
  \<open>Math.random()\<close> in \<open>[0, 1)\<close> the draw is below the total weight, so the loop over the
  configured table returns a tier, and that tier is the roller's result.
\<close>

theorem rollRarity_fallback_unreachable:
  assumes "0 \<le> random" and "random < 1"
  shows "\<exists>i. rollRarity_loop RARITIES (random * totalWeight) = Some i
             \<and> rollRarity random = i"
proof -
  have total: "totalWeight = sum_list (map weight RARITIES)"
    by (simp add: totalWeight_def reduce_weights)
  have "0 \<le> totalWeight" by (simp add: totalWeight_eq)
  with assms(2) have "random * totalWeight \<le> totalWeight"
    by (simp add: mult_left_le_one_le assms(1))
  moreover have "RARITIES \<noteq> []" by (simp add: RARITIES_def)
  ultimately have "rollRarity_loop RARITIES (random * totalWeight) \<noteq> None"
    unfolding total by (intro rollRarity_loop_returns)
  then obtain i where "rollRarity_loop RARITIES (random * totalWeight) = Some i" by blast
  then show ?thesis by (simp add: rollRarity_def rollRarity_walk_def)
qed

theorem rollRarity_fallback_unreachable_witness:
  "(0::real) \<le> 1 / 2 \<and> (1::real) / 2 < 1
   \<and> rollRarity_loop RARITIES (1 / 2 * totalWeight) = Some ''common''
   \<and> rollRarity (1 / 2) = ''common''"
  using rollRarity_fallback_unreachable [of "1 / 2"]
  by (simp add: totalWeight_eq rollRarity_loop_RARITIES)

section \<open>Tier lookup\<close>

lemma getRarity_cases:
  "getRarity i =
     (if i = Some ''common'' then RARITIES ! 0
      else if i = Some ''uncommon'' then RARITIES ! 1
      else if i = Some ''rare'' then RARITIES ! 2
      else if i = Some ''epic'' then RARITIES ! 3
      else if i = Some ''legendary'' then RARITIES ! 4
      else RARITIES ! 0)"
  by (auto simp add: getRarity_def RARITIES_def)

text \<open>
  Claim C10. The lookup is total: for every identifier, present or missing, \<open>getRarity\<close>
  returns a tier of the configured table; for an identifier of the table it is the tier
  of that name, and for any other it is the first tier, common. Reading the points or
  the label of the result therefore never fails.
\<close>

theorem getRarity_total:
  "getRarity i \<in> set RARITIES
   \<and> (i \<in> Some ` rid ` set RARITIES \<longrightarrow> Some (rid (getRarity i)) = i)
   \<and> (i \<notin> Some ` rid ` set RARITIES \<longrightarrow>
        getRarity i = RARITIES ! 0 \<and> rid (getRarity i) = ''common'')"
  by (auto simp add: getRarity_cases RARITIES_def)

theorem getRarity_total_witness:
  "Some ''mythic'' \<notin> Some ` rid ` set RARITIES
   \<and> getRarity (Some ''mythic'') = RARITIES ! 0
   \<and> rid (getRarity (Some ''mythic'')) = ''common''
   \<and> points (getRarity (Some ''mythic'')) = 10
   \<and> Some ''epic'' \<in> Some ` rid ` set RARITIES
   \<and> rid (getRarity (Some ''epic'')) = ''epic''
   \<and> points (getRarity (Some ''epic'')) = 100"
  using getRarity_total [of "Some ''mythic''"] getRarity_total [of "Some ''epic''"]
  by (simp add: getRarity_cases RARITIES_def)

section \<open>The haversine distance\<close>

lemma toRad_scale: "toRad d = d * (pi / 180)"
  by (simp add: toRad_def)

text \<open>
  The formula of the code is the reference formula of the specification: angles in
  radians, \<open>a = sin\<^sup>2(\<Delta>lat/2) + cos(lat1) \<sqdot> cos(lat2) \<sqdot> sin\<^sup>2(\<Delta>lon/2)\<close> and
  distance \<open>2 \<sqdot> R \<sqdot> atan2(\<surd>a, \<surd>(1 - a))\<close> with \<open>R = 6371000\<close>. The code converts
  the difference of the degrees where the reference subtracts the radians, and
  multiplies \<open>R \<sqdot> 2\<close> where the reference has \<open>2 \<sqdot> R\<close>. In exact arithmetic the two
  are equal for all coordinates.

  This does not carry over to the doubles of the code, and claim C6 fails there. At
  the valid pair \<open>(-87.5, -180)\<close>, \<open>(87.5, 0)\<close> the reference has \<open>a = 1\<close> and the distance
  \<open>6371000 \<sqdot> \<pi>\<close> (\<open>reference_haversine_antipodal\<close> below), while the code's rounded \<open>a\<close>
  is \<open>1.0000000000000002\<close>, \<open>Math.sqrt(1 - a)\<close> is NaN and \<open>haversineDistance\<close> returns
  NaN: the code does not clamp \<open>a\<close> to \<open>[0, 1]\<close>.
\<close>

lemma haversineDistance_exact_reference:
  "haversineDistance lat1 lon1 lat2 lon2 = reference_haversine lat1 lon1 lat2 lon2"
proof -
  have "haversineDistance lat1 lon1 lat2 lon2 =
      6371000 * 2 * atan2
        (sqrt ((sin ((lat2 * (pi / 180) - lat1 * (pi / 180)) / 2))\<^sup>2 +
               cos (lat1 * (pi / 180)) * cos (lat2 * (pi / 180)) *
               (sin ((lon2 * (pi / 180) - lon1 * (pi / 180)) / 2))\<^sup>2))
        (sqrt (1 - ((sin ((lat2 * (pi / 180) - lat1 * (pi / 180)) / 2))\<^sup>2 +
               cos (lat1 * (pi / 180)) * cos (lat2 * (pi / 180)) *
               (sin ((lon2 * (pi / 180) - lon1 * (pi / 180)) / 2))\<^sup>2)))"
    by (simp only: haversineDistance_def haversine_a_def Let_def toRad_scale
        left_diff_distrib)
  also have "\<dots> = reference_haversine lat1 lon1 lat2 lon2"
    by (simp only: reference_haversine_def Let_def mult.commute [of 2 6371000])
  finally show ?thesis .
qed

text \<open>
  In exact arithmetic the argument \<open>a\<close> of the square roots lies in \<open>[0, 1]\<close> for all
  inputs, also for coordinates outside the valid ranges. The bound \<open>a \<le> 1\<close> is met at
  antipodal points, which is where the rounding of the doubles can push \<open>a\<close> above it.
\<close>

lemma haversine_a_alt:
  "haversine_a lat1 lon1 lat2 lon2 =
     (1 - (sin (toRad lat1) * sin (toRad lat2)
           + cos (toRad lat1) * cos (toRad lat2) * cos (toRad (lon2 - lon1)))) / 2"
proof -
  have half: "(sin (x / 2))\<^sup>2 = (1 - cos x) / 2" for x :: real
    using cos_double_sin [of "x / 2"] by simp
  have "toRad (lat2 - lat1) = toRad lat2 - toRad lat1"
    by (simp add: toRad_def left_diff_distrib diff_divide_distrib)
  then have dlat: "cos (toRad (lat2 - lat1)) =
      cos (toRad lat2) * cos (toRad lat1) + sin (toRad lat2) * sin (toRad lat1)"
    by (simp add: cos_diff)
  show ?thesis
    unfolding haversine_a_def Let_def half dlat by (simp add: field_simps)
qed

lemma unit_vectors_bound:
  fixes s1 c1 s2 c2 c :: real
  assumes "s1\<^sup>2 + c1\<^sup>2 = 1" and "s2\<^sup>2 + c2\<^sup>2 = 1" and "\<bar>c\<bar> \<le> 1"
  shows "\<bar>s1 * s2 + c1 * c2 * c\<bar> \<le> 1"
proof -
  have "\<bar>s1 * s2 + c1 * c2 * c\<bar> \<le> \<bar>s1 * s2\<bar> + \<bar>c1 * c2\<bar> * \<bar>c\<bar>"
    by (metis abs_mult abs_triangle_ineq)
  also have "\<dots> \<le> \<bar>s1 * s2\<bar> + \<bar>c1 * c2\<bar>"
    using assms(3) by (simp add: mult_left_le)
  also have "\<dots> \<le> 1"
  proof -
    have "(\<bar>s1\<bar> * \<bar>s2\<bar> + \<bar>c1\<bar> * \<bar>c2\<bar>)\<^sup>2 + (\<bar>s1\<bar> * \<bar>c2\<bar> - \<bar>c1\<bar> * \<bar>s2\<bar>)\<^sup>2
        = (s1\<^sup>2 + c1\<^sup>2) * (s2\<^sup>2 + c2\<^sup>2)"
      by (simp add: power2_eq_square algebra_simps)
    moreover have "0 \<le> (\<bar>s1\<bar> * \<bar>c2\<bar> - \<bar>c1\<bar> * \<bar>s2\<bar>)\<^sup>2"
      by simp
    ultimately have "(\<bar>s1\<bar> * \<bar>s2\<bar> + \<bar>c1\<bar> * \<bar>c2\<bar>)\<^sup>2 \<le> (s1\<^sup>2 + c1\<^sup>2) * (s2\<^sup>2 + c2\<^sup>2)"
      by linarith
    then have "(\<bar>s1\<bar> * \<bar>s2\<bar> + \<bar>c1\<bar> * \<bar>c2\<bar>)\<^sup>2 \<le> 1\<^sup>2"
      by (simp add: assms(1,2))
    then have "\<bar>s1\<bar> * \<bar>s2\<bar> + \<bar>c1\<bar> * \<bar>c2\<bar> \<le> 1"
      by (rule power2_le_imp_le) simp
    then show ?thesis by (simp add: abs_mult)
  qed
  finally show ?thesis .
qed

lemma haversine_a_range:
  "0 \<le> haversine_a lat1 lon1 lat2 lon2 \<and> haversine_a lat1 lon1 lat2 lon2 \<le> 1"
proof -
  have "\<bar>sin (toRad lat1) * sin (toRad lat2)
        + cos (toRad lat1) * cos (toRad lat2) * cos (toRad (lon2 - lon1))\<bar> \<le> 1"
    by (rule unit_vectors_bound) simp_all
  then show ?thesis
    unfolding haversine_a_alt by (simp add: abs_le_iff)
qed

text \<open>
  Three values: a point is at distance 0 from itself, a quarter turn from the pole when
  it lies on the equator, and half a turn from its antipode.
\<close>

lemma haversineDistance_same: "haversineDistance x y x y = 0"
  by (simp add: haversineDistance_def haversine_a_def toRad_def atan2_def)

lemma haversineDistance_antipode: "haversineDistance 0 0 0 180 = 6371000 * pi"
  by (simp add: haversineDistance_def haversine_a_def toRad_def atan2_def)

lemma haversineDistance_pole: "haversineDistance 0 0 90 0 = 6371000 * pi / 2"
proof -
  have a: "haversine_a 0 0 90 0 = 1 / 2"
    by (simp add: haversine_a_def toRad_def sin_45 power2_eq_square)
  have "sqrt (1 / 2) / sqrt (1 / 2) = 1"
    by simp
  then have "atan2 (sqrt (1 / 2)) (sqrt (1 / 2)) = pi / 4"
    unfolding atan2_def by (simp add: arctan_one)
  then show ?thesis
    by (simp add: haversineDistance_def a Let_def)
qed

lemma reference_haversine_antipodal:
  "reference_haversine (- (175 / 2)) (- 180) (175 / 2) 0 = 6371000 * pi"
proof -
  let ?x = "175 / 2 * (pi / 180) :: real"
  have "175 / 2 * (pi / 180) - - (175 / 2) * (pi / 180) = 2 * ?x"
    by simp
  moreover have "0 * (pi / 180) - - 180 * (pi / 180) = (pi :: real)"
    by simp
  moreover have "(sin ?x)\<^sup>2 + cos (- ?x) * cos ?x * 1 = 1"
    using sin_cos_squared_add [of ?x] by (simp add: power2_eq_square)
  ultimately have
    "reference_haversine (- (175 / 2)) (- 180) (175 / 2) 0 = 2 * 6371000 * atan2 (sqrt 1) (sqrt (1 - 1))"
    unfolding reference_haversine_def Let_def by simp
  then show ?thesis
    by (simp add: atan2_def)
qed

lemma antipode_outside: "r \<le> 50000 \<Longrightarrow> \<not> 6371000 * pi \<le> r"
  using pi_ge_two by simp

section \<open>The proximity filter\<close>

subsection \<open>The sort is the stable sort by distance\<close>

lemma insertBy_insort_key:
  "distance x \<noteq> None \<Longrightarrow> \<forall>y\<in>set ys. distance y \<noteq> None \<Longrightarrow>
   insertBy byDistance x ys = insort_key distanceOf x ys"
  by (induction ys) (auto simp: byDistance_def distanceOf_def)

lemma sortBy_sort_key:
  "\<forall>y\<in>set xs. distance y \<noteq> None \<Longrightarrow> sortBy byDistance xs = sort_key distanceOf xs"
  by (induction xs) (simp_all add: insertBy_insort_key)

lemma withDistance_simps:
  "distance (withDistance u v q) = Some (haversineDistance u v (lat q) (lng q))"
  "lat (withDistance u v q) = lat q"
  "lng (withDistance u v q) = lng q"
  by (simp_all add: withDistance_def)

lemma withDistance_id: "scored u v q \<Longrightarrow> withDistance u v q = q"
  by (simp add: scored_def withDistance_def)

lemma withinRadius_scored:
  "scored u v q \<Longrightarrow> withinRadius r q \<longleftrightarrow> haversineDistance u v (lat q) (lng q) \<le> r"
  by (simp add: scored_def withinRadius_def)

lemma distanceOf_scored:
  "scored u v q \<Longrightarrow> distanceOf q = haversineDistance u v (lat q) (lng q)"
  by (simp add: scored_def distanceOf_def)

lemma nearbySorted_sort_key:
  "nearbySorted u v r qs =
     sort_key distanceOf (filter (withinRadius r) (map (withDistance u v) qs))"
  unfolding nearbySorted_def
  by (rule sortBy_sort_key) (auto simp: withDistance_simps)

lemma set_nearbySorted:
  "set (nearbySorted u v r qs) = {q \<in> withDistance u v ` set qs. withinRadius r q}"
  by (auto simp: nearbySorted_sort_key)

lemma nearbySorted_scored:
  "q \<in> set (nearbySorted u v r qs) \<Longrightarrow>
   scored u v q \<and> haversineDistance u v (lat q) (lng q) \<le> r"
  by (auto simp: set_nearbySorted scored_def withinRadius_def withDistance_simps)

lemma sorted_nearbySorted: "sorted (map distanceOf (nearbySorted u v r qs))"
  by (simp add: nearbySorted_sort_key)

lemma length_nearbySorted:
  "length (nearbySorted u v r qs) =
     length (filter (\<lambda>q. haversineDistance u v (lat q) (lng q) \<le> r) qs)"
  by (simp add: nearbySorted_sort_key filter_map o_def withinRadius_def withDistance_simps)

lemma loadNearbyQuestions_take:
  "loadNearbyQuestions u v rad qs = take 30 (nearbySorted u v (radiusOrDefault rad) qs)"
  by (simp add: loadNearbyQuestions_def nearbySorted_def)

lemma loadNearbyQuestions_scored:
  assumes "q \<in> set (loadNearbyQuestions u v rad qs)"
  shows "scored u v q \<and> haversineDistance u v (lat q) (lng q) \<le> radiusOrDefault rad"
  using assms nearbySorted_scored
  by (auto simp: loadNearbyQuestions_take dest: in_set_takeD)

lemma sorted_loadNearbyQuestions:
  "sorted (map distanceOf (loadNearbyQuestions u v rad qs))"
  using sorted_nearbySorted [of u v "radiusOrDefault rad" qs]
  by (simp add: loadNearbyQuestions_take flip: take_map)

lemma length_loadNearbyQuestions:
  "length (loadNearbyQuestions u v rad qs) =
     min 30 (length (filter (\<lambda>q. haversineDistance u v (lat q) (lng q)
                                   \<le> radiusOrDefault rad) qs))"
  by (simp add: loadNearbyQuestions_take length_nearbySorted)

text \<open>The filter on the sample data: the antipode is dropped, the tie keeps its order.\<close>

lemma loadNearbyQuestions_sample:
  "loadNearbyQuestions 0 0 (Some 5000) [sample_far, sample_b, sample_a] =
     [sample_b\<lparr>distance := Some 0\<rparr>, sample_a\<lparr>distance := Some 0\<rparr>]"
  by (simp add: loadNearbyQuestions_def radiusOrDefault_def withDistance_def
      withinRadius_def byDistance_def sample_a_def sample_b_def sample_far_def
      haversineDistance_same haversineDistance_antipode antipode_outside)

text \<open>
  The pole and the origin, seen from the origin: a radius of 20000 km keeps both and
  puts the origin first, a radius of 5 km and the default radius keep the origin only.
\<close>

lemma loadNearbyQuestions_pole_wide:
  "loadNearbyQuestions 0 0 (Some 20000000) [sample_pole, sample_a] =
     [sample_a\<lparr>distance := Some 0\<rparr>, sample_pole\<lparr>distance := Some (6371000 * pi / 2)\<rparr>]"
  using pi_less_4
  by (simp add: loadNearbyQuestions_def radiusOrDefault_def withDistance_def
      withinRadius_def byDistance_def sample_a_def sample_pole_def
      haversineDistance_same haversineDistance_pole not_le)

lemma loadNearbyQuestions_pole_narrow:
  "loadNearbyQuestions 0 0 (Some 5000) [sample_pole, sample_a] =
     [sample_a\<lparr>distance := Some 0\<rparr>]"
  using pi_ge_two
  by (simp add: loadNearbyQuestions_def radiusOrDefault_def withDistance_def
      withinRadius_def byDistance_def sample_a_def sample_pole_def
      haversineDistance_same haversineDistance_pole)

lemma loadNearbyQuestions_pole_default:
  "loadNearbyQuestions 0 0 None [sample_pole, sample_a] =
     [sample_a\<lparr>distance := Some 0\<rparr>]"
  using pi_ge_two
  by (simp add: loadNearbyQuestions_def radiusOrDefault_def withDistance_def
      withinRadius_def byDistance_def sample_a_def sample_pole_def
      haversineDistance_same haversineDistance_pole)

subsection \<open>Radius and order\<close>

text \<open>
  Claim C1. For every observer, candidate list and radius \<open>r\<close> given by the caller,
  every item of the filter's output carries its haversine distance from the observer,
  that distance is at most \<open>r\<close>, and the output is sorted by it in non-decreasing
  order. When the caller gives no radius the same holds with the default, 50000.
\<close>

theorem nearby_within_radius_and_sorted:
  "(\<forall>q \<in> set (loadNearbyQuestions userLat userLng (Some r) qs).
      distance q = Some (haversineDistance userLat userLng (lat q) (lng q))
      \<and> haversineDistance userLat userLng (lat q) (lng q) \<le> r)
   \<and> sorted (map (\<lambda>q. haversineDistance userLat userLng (lat q) (lng q))
              (loadNearbyQuestions userLat userLng (Some r) qs))
   \<and> (\<forall>q \<in> set (loadNearbyQuestions userLat userLng None qs).
      distance q = Some (haversineDistance userLat userLng (lat q) (lng q))
      \<and> haversineDistance userLat userLng (lat q) (lng q) \<le> 50000)
   \<and> sorted (map (\<lambda>q. haversineDistance userLat userLng (lat q) (lng q))
              (loadNearbyQuestions userLat userLng None qs))"
proof -
  let ?d = "\<lambda>q. haversineDistance userLat userLng (lat q) (lng q)"
  have inside: "distance q = Some (?d q) \<and> ?d q \<le> radiusOrDefault rad"
    if "q \<in> set (loadNearbyQuestions userLat userLng rad qs)" for q rad
  proof -
    from that have "scored userLat userLng q \<and> ?d q \<le> radiusOrDefault rad"
      by (rule loadNearbyQuestions_scored)
    then show ?thesis
      by (simp add: scored_def)
  qed
  have ordered: "sorted (map ?d (loadNearbyQuestions userLat userLng rad qs))" for rad
  proof -
    let ?out = "loadNearbyQuestions userLat userLng rad qs"
    have "map distanceOf ?out = map ?d ?out"
    proof (rule map_cong [OF refl])
      fix q
      assume "q \<in> set ?out"
      then have "scored userLat userLng q"
        using loadNearbyQuestions_scored by blast
      then show "distanceOf q = ?d q"
        by (rule distanceOf_scored)
    qed
    with sorted_loadNearbyQuestions [of userLat userLng rad qs]
    show ?thesis by simp
  qed
  have "radiusOrDefault (Some r) = r" and "radiusOrDefault None = 50000"
    by (simp_all add: radiusOrDefault_def)
  with inside [of _ "Some r"] inside [of _ None] ordered [of "Some r"] ordered [of None]
  show ?thesis by simp
qed

text \<open>
  On the pole and the origin the caller's radius decides: 20000 km keeps the pole, at
  its distance of a quarter turn and behind the origin, and 5 km drops it.
\<close>

theorem nearby_within_radius_and_sorted_witness:
  "map qid (loadNearbyQuestions 0 0 (Some 20000000) [sample_pole, sample_a]) = [''a'', ''p'']
   \<and> map qid (loadNearbyQuestions 0 0 (Some 5000) [sample_pole, sample_a]) = [''a'']
   \<and> map qid (loadNearbyQuestions 0 0 None [sample_pole, sample_a]) = [''a'']
   \<and> haversineDistance 0 0 (lat sample_pole) (lng sample_pole) \<le> 20000000
   \<and> \<not> haversineDistance 0 0 (lat sample_pole) (lng sample_pole) \<le> 5000
   \<and> \<not> haversineDistance 0 0 (lat sample_pole) (lng sample_pole) \<le> 50000
   \<and> sorted (map (\<lambda>q. haversineDistance 0 0 (lat q) (lng q))
              (loadNearbyQuestions 0 0 (Some 20000000) [sample_pole, sample_a]))"
  using nearby_within_radius_and_sorted [of 0 0 20000000 "[sample_pole, sample_a]"]
    nearby_within_radius_and_sorted [of 0 0 5000 "[sample_pole, sample_a]"]
    pi_less_4 pi_ge_two
  unfolding loadNearbyQuestions_pole_wide loadNearbyQuestions_pole_narrow
    loadNearbyQuestions_pole_default
  by (simp add: sample_a_def sample_pole_def haversineDistance_same haversineDistance_pole)

subsection \<open>The cap\<close>

text \<open>
  Claim C2, as the code has it. The filter takes no result cap: its arguments are the
  observer and the radius, and the cap is the constant 30 of \<open>slice(0, 30)\<close>. For every
  observer, candidate list and radius \<open>r\<close> given by the caller, the length of the output
  is at most the smaller of 30 and the number of candidates whose distance from the
  observer is at most \<open>r\<close>; with no radius given, the same with the default 50000. The
  cap of 30 is reached: of 31 candidates at the observer's position, 30 are returned.
\<close>

theorem nearby_length_cap_30:
  "length (loadNearbyQuestions userLat userLng (Some r) qs)
     \<le> min 30 (length (filter (\<lambda>q. haversineDistance userLat userLng (lat q) (lng q) \<le> r)
                          qs))
   \<and> length (loadNearbyQuestions userLat userLng None qs)
     \<le> min 30 (length (filter (\<lambda>q. haversineDistance userLat userLng (lat q) (lng q)
                                     \<le> 50000) qs))
   \<and> length (loadNearbyQuestions 0 0 (Some 5000) (replicate 31 sample_a)) = 30"
proof (intro conjI)
  show "length (loadNearbyQuestions userLat userLng (Some r) qs)
     \<le> min 30 (length (filter (\<lambda>q. haversineDistance userLat userLng (lat q) (lng q) \<le> r)
                          qs))"
    by (simp add: length_loadNearbyQuestions radiusOrDefault_def)
  show "length (loadNearbyQuestions userLat userLng None qs)
     \<le> min 30 (length (filter (\<lambda>q. haversineDistance userLat userLng (lat q) (lng q)
                                     \<le> 50000) qs))"
    by (simp add: length_loadNearbyQuestions radiusOrDefault_def)
  have "filter (\<lambda>q. haversineDistance 0 0 (lat q) (lng q) \<le> radiusOrDefault (Some 5000))
          (replicate 31 sample_a) = replicate 31 sample_a"
    by (rule filter_True)
      (simp add: sample_a_def haversineDistance_same radiusOrDefault_def)
  then show "length (loadNearbyQuestions 0 0 (Some 5000) (replicate 31 sample_a)) = 30"
    by (simp only: length_loadNearbyQuestions) simp
qed

text \<open>
  The claim as stated fails for a cap other than 30: a caller who wants at most one
  result and has two candidates within the radius gets both.
\<close>

theorem nearby_cap_is_not_an_input:
  "\<not> length (loadNearbyQuestions 0 0 (Some 5000) [sample_b, sample_a])
       \<le> min 1 (length (filter (\<lambda>q. haversineDistance 0 0 (lat q) (lng q) \<le> 5000)
                           [sample_b, sample_a]))"
  by (simp add: length_loadNearbyQuestions radiusOrDefault_def sample_a_def sample_b_def
      haversineDistance_same)

subsection \<open>Re-application\<close>

text \<open>
  Claim C7. The filter is idempotent: applied to its own output with the same observer
  and radius it returns that output, the same elements in the same order.
\<close>

theorem loadNearbyQuestions_idempotent:
  "loadNearbyQuestions userLat userLng rad (loadNearbyQuestions userLat userLng rad qs)
     = loadNearbyQuestions userLat userLng rad qs"
proof -
  let ?r = "radiusOrDefault rad"
  let ?out = "loadNearbyQuestions userLat userLng rad qs"
  have sc: "scored userLat userLng q
            \<and> haversineDistance userLat userLng (lat q) (lng q) \<le> ?r"
    if "q \<in> set ?out" for q
    using that by (rule loadNearbyQuestions_scored)
  have mapped: "map (withDistance userLat userLng) ?out = ?out"
    using sc withDistance_id by (intro map_idI) blast
  have kept: "filter (withinRadius ?r) ?out = ?out"
    unfolding filter_id_conv
  proof
    fix q
    assume "q \<in> set ?out"
    then have "scored userLat userLng q
               \<and> haversineDistance userLat userLng (lat q) (lng q) \<le> ?r"
      by (rule sc)
    then show "withinRadius ?r q"
      using withinRadius_scored [of userLat userLng q ?r] by simp
  qed
  have "sort_key distanceOf ?out = ?out"
    using sorted_loadNearbyQuestions by (rule sort_key_id_if_sorted)
  then have again: "nearbySorted userLat userLng ?r ?out = ?out"
    by (simp add: nearbySorted_sort_key mapped kept)
  have "length ?out \<le> 30"
    by (simp add: loadNearbyQuestions_take)
  then show ?thesis
    by (subst loadNearbyQuestions_take) (simp add: again)
qed

subsection \<open>Ties\<close>

text \<open>
  Claim C8. Candidates at exactly equal distance keep their relative order of the input
  list, and no other key breaks the tie: for every distance \<open>k\<close>, the output items at
  distance \<open>k\<close> are, in order, the first input candidates at distance \<open>k\<close>, each with
  its distance attached. They are all of them when \<open>k\<close> is within the radius and the cap
  of 30 cuts nothing off.
\<close>

theorem loadNearbyQuestions_stable:
  "prefix (filter (\<lambda>q. distance q = Some k) (loadNearbyQuestions userLat userLng rad qs))
     (map (withDistance userLat userLng)
        (filter (\<lambda>q. haversineDistance userLat userLng (lat q) (lng q) = k) qs))
   \<and> (k \<le> radiusOrDefault rad \<longrightarrow>
       length (filter (\<lambda>q. haversineDistance userLat userLng (lat q) (lng q)
                             \<le> radiusOrDefault rad) qs) \<le> 30 \<longrightarrow>
       filter (\<lambda>q. distance q = Some k) (loadNearbyQuestions userLat userLng rad qs)
         = map (withDistance userLat userLng)
             (filter (\<lambda>q. haversineDistance userLat userLng (lat q) (lng q) = k) qs))"
proof -
  let ?r = "radiusOrDefault rad"
  let ?P = "\<lambda>q. distance q = Some k"
  let ?M = "map (withDistance userLat userLng) qs"
  let ?W = "filter (withinRadius ?r) ?M"
  let ?S = "nearbySorted userLat userLng ?r qs"
  let ?T = "map (withDistance userLat userLng)
              (filter (\<lambda>q. haversineDistance userLat userLng (lat q) (lng q) = k) qs)"
  have S: "?S = sort_key distanceOf ?W"
    by (rule nearbySorted_sort_key)
  have PW: "?P q \<longleftrightarrow> distanceOf q = k" if "q \<in> set ?W" for q
    using that by (auto simp: distanceOf_def withDistance_simps)
  have "filter ?P ?S = filter (\<lambda>q. distanceOf q = k) ?S"
    by (rule filter_cong [OF refl]) (simp add: S PW)
  also have "\<dots> = filter (\<lambda>q. distanceOf q = k) ?W"
    by (simp only: S sort_key_stable)
  also have "\<dots> = filter ?P ?W"
    by (rule filter_cong [OF refl]) (simp add: PW)
  also have "\<dots> = filter (withinRadius ?r) (filter ?P ?M)"
    by (simp add: conj_commute)
  finally have ties: "filter ?P ?S = filter (withinRadius ?r) (filter ?P ?M)" .
  have T: "filter ?P ?M = ?T"
    by (simp add: filter_map o_def withDistance_simps)
  have inside: "filter (withinRadius ?r) (filter ?P ?M) = filter ?P ?M" if "k \<le> ?r"
    by (rule filter_True) (use that in \<open>auto simp: withinRadius_def\<close>)
  have outside: "filter (withinRadius ?r) (filter ?P ?M) = []" if "\<not> k \<le> ?r"
    using that by (auto simp: withinRadius_def filter_empty_conv)
  have "prefix (filter ?P (take 30 ?S)) (filter ?P ?S)"
    by (intro filter_mono_prefix take_is_prefix)
  then have "prefix (filter ?P (take 30 ?S)) ?T"
    using inside outside by (cases "k \<le> ?r") (simp_all add: ties T)
  moreover have "filter ?P (take 30 ?S) = ?T"
    if "k \<le> ?r"
      and "length (filter (\<lambda>q. haversineDistance userLat userLng (lat q) (lng q) \<le> ?r) qs)
             \<le> 30"
  proof -
    have "take 30 ?S = ?S"
      using that(2) by (simp add: length_nearbySorted)
    then show ?thesis
      using inside [OF that(1)] by (simp add: ties T)
  qed
  ultimately show ?thesis
    by (simp add: loadNearbyQuestions_take)
qed

theorem loadNearbyQuestions_stable_witness:
  "(0::real) \<le> radiusOrDefault (Some 5000)
   \<and> length (filter (\<lambda>q. haversineDistance 0 0 (lat q) (lng q) \<le> radiusOrDefault (Some 5000))
              [sample_far, sample_b, sample_a]) \<le> 30
   \<and> filter (\<lambda>q. distance q = Some 0)
        (loadNearbyQuestions 0 0 (Some 5000) [sample_far, sample_b, sample_a])
       = map (withDistance 0 0) [sample_b, sample_a]
   \<and> map qid (loadNearbyQuestions 0 0 (Some 5000) [sample_far, sample_b, sample_a])
       = [''b'', ''a'']"
  using loadNearbyQuestions_stable [where k = 0 and userLat = 0 and userLng = 0
      and rad = "Some 5000" and qs = "[sample_far, sample_b, sample_a]"]
  unfolding loadNearbyQuestions_sample
  by (simp add: radiusOrDefault_def withDistance_def sample_a_def sample_b_def
      sample_far_def haversineDistance_same haversineDistance_antipode antipode_outside)

subsection \<open>The three variants\<close>

lemma length_hydrate_le: "length (hydrate payloads xs) \<le> length xs"
  by (induction xs) (auto split: option.splits)





end
